theory Spec2Isabelle
  imports Complex_Main
begin

section \<open>Python values and errors\<close>

text \<open>
  The constructor arguments and the entries of a configuration mapping are Python
  objects. The model keeps the kinds that can stand in a flat configuration: \<open>None\<close>,
  booleans, integers and strings.
\<close>

datatype pyval = PyNone | PyBool bool | PyInt int | PyStr string

text \<open>
  Python's \<open>v == n\<close> for an integer literal \<open>n\<close>: an \<open>int\<close> is compared by value,
  a \<open>bool\<close> is the integer 0 or 1, \<open>None\<close> and a \<open>str\<close> are never equal to a number.
\<close>

fun py_eq_int :: "pyval \<Rightarrow> int \<Rightarrow> bool" where
  "py_eq_int (PyInt i) n = (i = n)"
| "py_eq_int (PyBool b) n = ((if b then 1 else 0) = n)"
| "py_eq_int PyNone n = False"
| "py_eq_int (PyStr s) n = False"

text \<open>\<open>v in [n1, n2, ...]\<close> on a list of integer literals.\<close>

fun py_in :: "pyval \<Rightarrow> int list \<Rightarrow> bool" where
  "py_in v [] = False"
| "py_in v (n # ns) = (py_eq_int v n \<or> py_in v ns)"

text \<open>
  Every \<open>raise\<close> of the two layers is a \<open>ValueError\<close> with a message; of a formatted
  message the model keeps the fixed part. \<open>IndexError\<close> and \<open>AttributeError\<close> are what
  Python raises on an index out of range and on an attribute that was never assigned.
  An exception that comes out of a call into TensorFlow or Keras is kept apart as
  \<open>LibraryError\<close>, with whatever the library reports: \<open>ValueError\<close> in this theory always
  is one of the \<open>raise ValueError\<close> statements of the modelled files.
\<close>

datatype 'e error = ValueError string | IndexError | AttributeError string | LibraryError 'e

section \<open>Tensors of the Grayscale layer\<close>

text \<open>
  A dense tensor: its shape and its entries in row-major order, channels last. The
  entry type \<open>'a\<close> is left open (\<open>uint8\<close>, \<open>float32\<close>, ...).
\<close>

record 'a tensor =
  dims :: "nat list"
  flat :: "'a list"

definition well_shaped :: "'a tensor \<Rightarrow> bool" where
  "well_shaped t = (length (flat t) = prod_list (dims t))"

text \<open>Entry \<open>(i, j, c)\<close> of a tensor of shape \<open>(H, W, C)\<close>.\<close>

definition entry3 :: "'a tensor \<Rightarrow> nat \<Rightarrow> nat \<Rightarrow> nat \<Rightarrow> 'a" where
  "entry3 t i j c = flat t ! ((i * (dims t ! 1) + j) * (dims t ! 2) + c)"

text \<open>
  \<open>tf.image.rgb_to_grayscale\<close> contracts the last axis, which must have size 3, with the
  luma weights and puts an axis of size 1 in its place. The arithmetic on one pixel
  (conversion to \<open>float32\<close>, the weighted sum, conversion back) is floating point inside
  TensorFlow; it is the parameter \<open>luma\<close>, a function of the pixel's three channels.
\<close>

fun gray_entries :: "('a \<Rightarrow> 'a \<Rightarrow> 'a \<Rightarrow> 'a) \<Rightarrow> 'a list \<Rightarrow> 'a list" where
  "gray_entries luma (r # g # b # rest) = luma r g b # gray_entries luma rest"
| "gray_entries luma rest = []"

definition rgb_to_grayscale ::
  "('a \<Rightarrow> 'a \<Rightarrow> 'a \<Rightarrow> 'a) \<Rightarrow> 'a tensor \<Rightarrow> string error + 'a tensor" where
  "rgb_to_grayscale luma img =
     (if dims img \<noteq> [] \<and> last (dims img) = 3
      then Inr \<lparr>dims = butlast (dims img) @ [1], flat = gray_entries luma (flat img)\<rparr>
      else Inl (LibraryError ''rgb_to_grayscale: last dimension must be size 3''))"

text \<open>
  \<open>tf.image.grayscale_to_rgb\<close> tiles the last axis, which must have size 1, three times;
  it asks for a tensor of rank 2 at least.
\<close>

fun tile3 :: "'a list \<Rightarrow> 'a list" where
  "tile3 [] = []"
| "tile3 (v # vs) = v # v # v # tile3 vs"

definition grayscale_to_rgb :: "'a tensor \<Rightarrow> string error + 'a tensor" where
  "grayscale_to_rgb img =
     (if 2 \<le> length (dims img) \<and> last (dims img) = 1
      then Inr \<lparr>dims = butlast (dims img) @ [3], flat = tile3 (flat img)\<rparr>
      else Inl (LibraryError ''grayscale_to_rgb: last dimension must be size 1''))"

section \<open>The Grayscale layer\<close>

text \<open>
  The layer object: the two attributes \<open>__init__\<close> assigns, and the part that belongs to
  the base class \<open>BaseImageAugmentationLayer\<close>, which receives \<open>**kwargs\<close> and answers
  \<open>super().get_config()\<close>. The base class is represented by that mapping.
\<close>

type_synonym config = "string \<rightharpoonup> pyval"

record grayscale =
  output_channels :: pyval
  auto_vectorize :: bool
  base_config :: config

text \<open>\<open>Grayscale.__init__(self, output_channels=1, **kwargs)\<close>: it has no \<open>raise\<close>.\<close>

definition Grayscale_init :: "pyval \<Rightarrow> config \<Rightarrow> string error + grayscale" where
  "Grayscale_init oc kwargs =
     Inr \<lparr>output_channels = oc, auto_vectorize = False, base_config = kwargs\<rparr>"

text \<open>
  \<open>Grayscale._check_input_params\<close>: raises for a value not in \<open>[1, 3]\<close>, otherwise
  assigns the attribute. The result is the outcome and the layer after the call.
  No method of the class calls it.
\<close>

definition check_input_params :: "grayscale \<Rightarrow> pyval \<Rightarrow> (string error + unit) \<times> grayscale" where
  "check_input_params self oc =
     (if \<not> py_in oc [1, 3]
      then (Inl (ValueError
              ''Received invalid argument output_channels. output_channels must be in 1 or 3. Got ''),
            self)
      else (Inr (), self\<lparr>output_channels := oc\<rparr>))"

text \<open>\<open>Grayscale.augment_image\<close>; it reads \<open>self.output_channels\<close> and assigns nothing.\<close>

definition augment_image ::
  "('a \<Rightarrow> 'a \<Rightarrow> 'a \<Rightarrow> 'a) \<Rightarrow> grayscale \<Rightarrow> 'a tensor \<Rightarrow> string error + 'a tensor" where
  "augment_image luma self img =
     (case rgb_to_grayscale luma img of
        Inl e \<Rightarrow> Inl e
      | Inr grayscale \<Rightarrow>
          if py_eq_int (output_channels self) 1 then Inr grayscale
          else if py_eq_int (output_channels self) 3 then grayscale_to_rgb grayscale
          else Inl (ValueError ''Unsupported value for `output_channels`.''))"

text \<open>
  The hooks for the other modalities. \<open>transformation\<close> is the argument of that name;
  the keyword arguments are not read.
\<close>

definition augment_bounding_boxes :: "grayscale \<Rightarrow> 'b \<Rightarrow> 'b" where
  "augment_bounding_boxes self bounding_boxes = bounding_boxes"

definition augment_label :: "grayscale \<Rightarrow> 'b \<Rightarrow> 'x \<Rightarrow> 'b" where
  "augment_label self label transformation = label"

definition augment_segmentation_mask :: "grayscale \<Rightarrow> 'b \<Rightarrow> 'x \<Rightarrow> 'b" where
  "augment_segmentation_mask self segmentation_mask transformation = segmentation_mask"

text \<open>
  \<open>Grayscale.get_config\<close>: \<open>dict(list(base_config.items()) + list(config.items()))\<close>, where a
  later item replaces an earlier one with the same key.
\<close>

definition Grayscale_get_config :: "grayscale \<Rightarrow> config" where
  "Grayscale_get_config self =
     base_config self ++ [''output_channels'' \<mapsto> output_channels self]"

text \<open>
  \<open>from_config\<close> is inherited from the Keras layer class, where it is \<open>cls(**config)\<close>: the
  entry \<open>output_channels\<close> binds the parameter of that name (its default is 1), every
  other entry goes to \<open>**kwargs\<close>.
\<close>

definition Grayscale_from_config :: "config \<Rightarrow> string error + grayscale" where
  "Grayscale_from_config cfg =
     Grayscale_init
       (case cfg ''output_channels'' of None \<Rightarrow> PyInt 1 | Some v \<Rightarrow> v)
       (cfg |` (- {''output_channels''}))"

text \<open>
  A sequence of hook invocations on one layer object. Each step gives what the hook
  returns and the layer after the call; none of the four hooks assigns an attribute.
\<close>

datatype 'a gray_op =
    AugmentImage "'a tensor"
  | AugmentBoundingBoxes "'a tensor"
  | AugmentLabel "'a tensor"
  | AugmentSegmentationMask "'a tensor"

definition gray_step ::
  "('a \<Rightarrow> 'a \<Rightarrow> 'a \<Rightarrow> 'a) \<Rightarrow> grayscale \<Rightarrow> 'a gray_op \<Rightarrow> (string error + 'a tensor) \<times> grayscale" where
  "gray_step luma self act =
     (case act of
        AugmentImage img \<Rightarrow> (augment_image luma self img, self)
      | AugmentBoundingBoxes boxes \<Rightarrow> (Inr (augment_bounding_boxes self boxes), self)
      | AugmentLabel label \<Rightarrow> (Inr (augment_label self label (None :: unit option)), self)
      | AugmentSegmentationMask seg \<Rightarrow> (Inr (augment_segmentation_mask self seg (None :: unit option)), self))"

fun gray_run ::
  "('a \<Rightarrow> 'a \<Rightarrow> 'a \<Rightarrow> 'a) \<Rightarrow> grayscale \<Rightarrow> 'a gray_op list
     \<Rightarrow> (string error + 'a tensor) list \<times> grayscale" where
  "gray_run luma self [] = ([], self)"
| "gray_run luma self (act # acts) =
     (case gray_step luma self act of
        (r, self') \<Rightarrow> (case gray_run luma self' acts of (rs, self'') \<Rightarrow> (r # rs, self'')))"

section \<open>The SpatialPyramidPooling layer\<close>

text \<open>
  The Keras layers that \<open>build\<close> constructs, each with the arguments \<open>build\<close> passes:
  \<open>Conv2D(filters, kernel_size, padding, dilation_rate, use_bias)\<close>, where \<open>None\<close> stands
  for a keyword that is not passed, \<open>Reshape(target_shape)\<close>,
  \<open>Resizing(height, width, interpolation)\<close> and \<open>Dropout(rate)\<close>. A dimension of a
  shape is an \<open>int\<close> or \<open>None\<close>.
\<close>

type_synonym dim = "int option"

datatype keras_layer =
    Conv2D int "int \<times> int" "string option" "int option" bool
  | BatchNormalization
  | Activation string
  | GlobalAveragePooling2D
  | Reshape "dim list"
  | Resizing dim dim string
  | Dropout real

text \<open>
  What the layer asks of Keras and TensorFlow. \<open>'c\<close> is a constructed
  \<open>tf.keras.Sequential\<close>, \<open>'t\<close> a tensor, \<open>'d\<close> a dtype, \<open>'e\<close> what the library raises.
  \<^item> \<open>Sequential\<close>: constructing the listed layers and the \<open>Sequential\<close> around them;
  \<^item> \<open>run_layer c x training\<close>: the call \<open>c(x, training=training)\<close>, which gives an
    output or raises, and leaves the sublayer in a new state (its weights are created
    on the first call, batch normalisation moves its statistics when training);
  \<^item> \<open>dtype\<close>, \<open>tf_cast\<close>, \<open>tf_concat\<close>: \<open>x.dtype\<close>, \<open>tf.cast(x, dtype)\<close> and
    \<open>tf.concat(xs, axis=-1)\<close>.
\<close>

record ('c, 't, 'd, 'e) keras =
  Sequential :: "keras_layer list \<Rightarrow> 'e + 'c"
  run_layer :: "'c \<Rightarrow> 't \<Rightarrow> bool option \<Rightarrow> ('e + 't) \<times> 'c"
  dtype :: "'t \<Rightarrow> 'd"
  tf_cast :: "'t \<Rightarrow> 'd \<Rightarrow> 'e + 't"
  tf_concat :: "'t list \<Rightarrow> 'e + 't"

text \<open>
  The layer object. \<open>__init__\<close> assigns the five configuration attributes;
  \<open>aspp_parallel_channels\<close> and \<open>projection\<close> exist only once \<open>build\<close> has assigned them
  (\<open>None\<close>: the attribute is not there).
\<close>

record 'c spatial_pyramid_pooling =
  level :: int
  dilation_rates :: "int list"
  num_channels :: int
  activation :: string
  dropout :: real
  aspp_parallel_channels :: "'c list option"
  projection :: "'c option"

definition SpatialPyramidPooling_init ::
  "int \<Rightarrow> int list \<Rightarrow> int \<Rightarrow> string \<Rightarrow> real \<Rightarrow> 'c spatial_pyramid_pooling" where
  "SpatialPyramidPooling_init lvl rates channels act rate =
     \<lparr>level = lvl, dilation_rates = rates, num_channels = channels, activation = act,
      dropout = rate, aspp_parallel_channels = None, projection = None\<rparr>"

text \<open>
  The argument of \<open>build\<close> and of \<open>call\<close> is any Python object: a \<open>dict\<close> with integer
  keys, or something that is not a \<open>dict\<close> (one value, or a list of values).
\<close>

datatype 'v py_arg = Dict "int \<rightharpoonup> 'v" | Single 'v | Sequence "'v list"

definition not_a_dict :: string where
  "not_a_dict = ''SpatialPyramidPooling expects input features to be a dict with int keys, received ''"

definition missing_level :: string where
  "missing_level = ''SpatialPyramidPooling expect the input dict to contain key ''"

subsection \<open>build\<close>

definition conv_block :: "'c spatial_pyramid_pooling \<Rightarrow> keras_layer list" where
  "conv_block self =
     [Conv2D (num_channels self) (1, 1) None None False,
      BatchNormalization,
      Activation (activation self)]"

definition dilated_block :: "'c spatial_pyramid_pooling \<Rightarrow> int \<Rightarrow> keras_layer list" where
  "dilated_block self dilation_rate =
     [Conv2D (num_channels self) (3, 3) (Some ''same'') (Some dilation_rate) False,
      BatchNormalization,
      Activation (activation self)]"

definition pool_block :: "'c spatial_pyramid_pooling \<Rightarrow> dim \<Rightarrow> dim \<Rightarrow> dim \<Rightarrow> keras_layer list" where
  "pool_block self height width channels =
     [GlobalAveragePooling2D,
      Reshape [Some 1, Some 1, channels],
      Conv2D (num_channels self) (1, 1) None None False,
      BatchNormalization,
      Activation (activation self),
      Resizing height width ''bilinear'']"

definition projection_block :: "'c spatial_pyramid_pooling \<Rightarrow> keras_layer list" where
  "projection_block self =
     [Conv2D (num_channels self) (1, 1) None None False,
      BatchNormalization,
      Activation (activation self),
      Dropout (dropout self)]"

text \<open>
  The loop over \<open>self.dilation_rates\<close>; \<open>chans\<close> is the list \<open>self.aspp_parallel_channels\<close>
  as appended to so far, and stays as it is when a constructor raises.
\<close>

fun dilated_channels ::
  "('c, 't, 'd, 'e) keras \<Rightarrow> 'c spatial_pyramid_pooling \<Rightarrow> int list \<Rightarrow> 'c list
     \<Rightarrow> ('e error + unit) \<times> 'c list" where
  "dilated_channels K self [] chans = (Inr (), chans)"
| "dilated_channels K self (dilation_rate # rates) chans =
     (case Sequential K (dilated_block self dilation_rate) of
        Inl e \<Rightarrow> (Inl (LibraryError e), chans)
      | Inr conv_sequential \<Rightarrow> dilated_channels K self rates (chans @ [conv_sequential]))"

text \<open>
  \<open>build\<close> from the point where the shape at the level has been read: the channels, then
  the projection. The result is the outcome and the layer as the call leaves it.
\<close>

definition build_channels ::
  "('c, 't, 'd, 'e) keras \<Rightarrow> 'c spatial_pyramid_pooling \<Rightarrow> dim \<Rightarrow> dim \<Rightarrow> dim
     \<Rightarrow> ('e error + unit) \<times> 'c spatial_pyramid_pooling" where
  "build_channels K self height width channels =
     (case Sequential K (conv_block self) of
        Inl e \<Rightarrow> (Inl (LibraryError e), self\<lparr>aspp_parallel_channels := Some []\<rparr>)
      | Inr conv_sequential \<Rightarrow>
          (case dilated_channels K self (dilation_rates self) [conv_sequential] of
             (Inl e, chans) \<Rightarrow> (Inl e, self\<lparr>aspp_parallel_channels := Some chans\<rparr>)
           | (Inr u, chans) \<Rightarrow>
               (case Sequential K (pool_block self height width channels) of
                  Inl e \<Rightarrow> (Inl (LibraryError e), self\<lparr>aspp_parallel_channels := Some chans\<rparr>)
                | Inr pool_sequential \<Rightarrow>
                    (case Sequential K (projection_block self) of
                       Inl e \<Rightarrow>
                         (Inl (LibraryError e),
                          self\<lparr>aspp_parallel_channels := Some (chans @ [pool_sequential])\<rparr>)
                     | Inr p \<Rightarrow>
                         (Inr (),
                          self\<lparr>aspp_parallel_channels := Some (chans @ [pool_sequential]),
                               projection := Some p\<rparr>)))))"

text \<open>
  \<open>SpatialPyramidPooling.build\<close>. The three reads \<open>input_shape_at_level[1]\<close>, \<open>[2]\<close>,
  \<open>[3]\<close> raise \<open>IndexError\<close> on a shape with fewer than four entries.
\<close>

definition build ::
  "('c, 't, 'd, 'e) keras \<Rightarrow> 'c spatial_pyramid_pooling \<Rightarrow> dim list py_arg
     \<Rightarrow> ('e error + unit) \<times> 'c spatial_pyramid_pooling" where
  "build K self input_shape =
     (case input_shape of
        Dict d \<Rightarrow>
          (case d (level self) of
             None \<Rightarrow> (Inl (ValueError missing_level), self)
           | Some input_shape_at_level \<Rightarrow>
               if length input_shape_at_level < 4 then (Inl IndexError, self)
               else build_channels K self
                      (input_shape_at_level ! 1) (input_shape_at_level ! 2) (input_shape_at_level ! 3))
      | Single v \<Rightarrow> (Inl (ValueError not_a_dict), self)
      | Sequence vs \<Rightarrow> (Inl (ValueError not_a_dict), self))"

subsection \<open>call\<close>

text \<open>
  The loop over \<open>self.aspp_parallel_channels\<close>: each channel is called on the input at
  the level and its output cast to the input's dtype. The result is the list of outputs,
  or the first exception, and the channels in the state the loop leaves them in.
\<close>

fun run_channels ::
  "('c, 't, 'd, 'e) keras \<Rightarrow> 't \<Rightarrow> bool option \<Rightarrow> 'c list \<Rightarrow> ('e error + 't list) \<times> 'c list" where
  "run_channels K input_at_level training [] = (Inr [], [])"
| "run_channels K input_at_level training (channel # channels) =
     (case run_layer K channel input_at_level training of
        (Inl e, channel') \<Rightarrow> (Inl (LibraryError e), channel' # channels)
      | (Inr y, channel') \<Rightarrow>
          (case tf_cast K y (dtype K input_at_level) of
             Inl e \<Rightarrow> (Inl (LibraryError e), channel' # channels)
           | Inr z \<Rightarrow>
               (case run_channels K input_at_level training channels of
                  (Inl e, channels') \<Rightarrow> (Inl e, channel' # channels')
                | (Inr zs, channels') \<Rightarrow> (Inr (z # zs), channel' # channels'))))"

text \<open>\<open>tf.concat\<close> and \<open>self.projection\<close>, the last two statements before the \<open>return\<close>.\<close>

definition project ::
  "('c, 't, 'd, 'e) keras \<Rightarrow> 'c spatial_pyramid_pooling \<Rightarrow> 't list \<Rightarrow> bool option
     \<Rightarrow> ('e error + 't) \<times> 'c spatial_pyramid_pooling" where
  "project K self result training =
     (case tf_concat K result of
        Inl e \<Rightarrow> (Inl (LibraryError e), self)
      | Inr concatenated \<Rightarrow>
          (case projection self of
             None \<Rightarrow> (Inl (AttributeError ''projection''), self)
           | Some p \<Rightarrow>
               (case run_layer K p concatenated training of
                  (Inl e, p') \<Rightarrow> (Inl (LibraryError e), self\<lparr>projection := Some p'\<rparr>)
                | (Inr out, p') \<Rightarrow> (Inr out, self\<lparr>projection := Some p'\<rparr>))))"

text \<open>
  \<open>SpatialPyramidPooling.call\<close>: the returned dict, or the exception, and the layer as
  the call leaves it.
\<close>

definition call ::
  "('c, 't, 'd, 'e) keras \<Rightarrow> 'c spatial_pyramid_pooling \<Rightarrow> 't py_arg \<Rightarrow> bool option
     \<Rightarrow> ('e error + (int \<rightharpoonup> 't)) \<times> 'c spatial_pyramid_pooling" where
  "call K self inputs training =
     (case inputs of
        Dict d \<Rightarrow>
          (case d (level self) of
             None \<Rightarrow> (Inl (ValueError missing_level), self)
           | Some input_at_level \<Rightarrow>
               (case aspp_parallel_channels self of
                  None \<Rightarrow> (Inl (AttributeError ''aspp_parallel_channels''), self)
                | Some channels \<Rightarrow>
                    (case run_channels K input_at_level training channels of
                       (Inl e, channels') \<Rightarrow>
                         (Inl e, self\<lparr>aspp_parallel_channels := Some channels'\<rparr>)
                     | (Inr result, channels') \<Rightarrow>
                         (case project K (self\<lparr>aspp_parallel_channels := Some channels'\<rparr>)
                                 result training of
                            (Inl e, self') \<Rightarrow> (Inl e, self')
                          | (Inr out, self') \<Rightarrow> (Inr [level self \<mapsto> out], self')))))
      | Single v \<Rightarrow> (Inl (ValueError not_a_dict), self)
      | Sequence vs \<Rightarrow> (Inl (ValueError not_a_dict), self))"

text \<open>A sequence of \<open>build\<close> and \<open>call\<close> invocations on one layer object.\<close>

datatype 't spp_op = Build "dim list py_arg" | Call "'t py_arg" "bool option"

definition spp_step ::
  "('c, 't, 'd, 'e) keras \<Rightarrow> 'c spatial_pyramid_pooling \<Rightarrow> 't spp_op
     \<Rightarrow> 'c spatial_pyramid_pooling" where
  "spp_step K self act =
     (case act of
        Build input_shape \<Rightarrow> snd (build K self input_shape)
      | Call inputs training \<Rightarrow> snd (call K self inputs training))"

fun spp_run ::
  "('c, 't, 'd, 'e) keras \<Rightarrow> 'c spatial_pyramid_pooling \<Rightarrow> 't spp_op list
     \<Rightarrow> 'c spatial_pyramid_pooling" where
  "spp_run K self [] = self"
| "spp_run K self (act # acts) = spp_run K (spp_step K self act) acts"

section \<open>Predicates of the statements\<close>

text \<open>The argument is a \<open>dict\<close> and has the key \<open>k\<close>.\<close>

fun dict_with_key :: "int \<Rightarrow> 'v py_arg \<Rightarrow> bool" where
  "dict_with_key k (Dict d) = (d k \<noteq> None)"
| "dict_with_key k (Single v) = False"
| "dict_with_key k (Sequence vs) = False"

text \<open>
  \<open>z\<close> is what one pass of the loop of \<open>call\<close> appends for \<open>channel\<close>: the channel's
  output on \<open>x\<close>, cast to the dtype of \<open>x\<close>.
\<close>

definition channel_gives ::
  "('c, 't, 'd, 'e) keras \<Rightarrow> 't \<Rightarrow> bool option \<Rightarrow> 'c \<Rightarrow> 't \<Rightarrow> bool" where
  "channel_gives K x training channel z =
     (case fst (run_layer K channel x training) of
        Inl e \<Rightarrow> False
      | Inr y \<Rightarrow> tf_cast K y (dtype K x) = Inr z)"

text \<open>The five attributes that \<open>SpatialPyramidPooling.__init__\<close> assigns.\<close>

definition config_fields ::
  "'c spatial_pyramid_pooling \<Rightarrow> int \<times> int list \<times> int \<times> string \<times> real" where
  "config_fields self =
     (level self, dilation_rates self, num_channels self, activation self, dropout self)"

section \<open>Concrete inputs\<close>

text \<open>
  An image of shape \<open>(1, 2, 3)\<close> with integer entries, the luma weights of
  \<open>rgb_to_grayscale\<close> in integer arithmetic, and a Grayscale layer for a given
  \<open>output_channels\<close>.
\<close>

definition int_luma :: "int \<Rightarrow> int \<Rightarrow> int \<Rightarrow> int" where
  "int_luma r g b = (2989 * r + 5870 * g + 1140 * b) div 10000"

definition example_image :: "int tensor" where
  "example_image = \<lparr>dims = [1, 2, 3], flat = [10, 20, 30, 200, 100, 50]\<rparr>"

definition example_grayscale :: "int \<Rightarrow> grayscale" where
  "example_grayscale n =
     \<lparr>output_channels = PyInt n, auto_vectorize = False, base_config = Map.empty\<rparr>"

text \<open>
  An instance of the Keras interface that computes shapes only. A tensor is its shape, a
  constructed \<open>Sequential\<close> is the list of its layers with the number of times it was
  called; each block that \<open>build\<close> constructs takes a tensor \<open>(b, h, w, c)\<close> to
  \<open>(b, h, w, filters)\<close> and rejects any other rank; \<open>tf.concat\<close> adds up the last axis.
\<close>

fun block_filters :: "keras_layer list \<Rightarrow> nat" where
  "block_filters [] = 0"
| "block_filters (Conv2D filters kernel_size padding dilation_rate use_bias # layers) = nat filters"
| "block_filters (layer # layers) = block_filters layers"

definition shape_keras :: "(keras_layer list \<times> nat, nat list, unit, string) keras" where
  "shape_keras =
     \<lparr>Sequential = (\<lambda>layers. Inr (layers, 0)),
      run_layer = (\<lambda>c x training.
         (if length x = 4 then Inr (butlast x @ [block_filters (fst c)])
          else Inl ''expected ndim=4'',
          (fst c, Suc (snd c)))),
      dtype = (\<lambda>x. ()),
      tf_cast = (\<lambda>x d. Inr x),
      tf_concat = (\<lambda>xs. case xs of
                      [] \<Rightarrow> Inl ''nothing to concatenate''
                    | x # rest \<Rightarrow> Inr (butlast x @ [sum_list (map last xs)]))\<rparr>"

text \<open>
  The layer of the class docstring, \<open>SpatialPyramidPooling(level=4, dilation_rates=[6, 12, 18])\<close>,
  as constructed and as built on the shapes of two backbone levels, and a batch of two
  feature maps per level.
\<close>

definition example_layer :: "(keras_layer list \<times> nat) spatial_pyramid_pooling" where
  "example_layer = SpatialPyramidPooling_init 4 [6, 12, 18] 256 ''relu'' 0"

definition example_shapes :: "dim list py_arg" where
  "example_shapes =
     Dict [3 \<mapsto> [None, Some 32, Some 32, Some 112], 4 \<mapsto> [None, Some 16, Some 16, Some 320]]"

definition example_built :: "(keras_layer list \<times> nat) spatial_pyramid_pooling" where
  "example_built = snd (build shape_keras example_layer example_shapes)"

definition example_inputs :: "nat list py_arg" where
  "example_inputs = Dict [3 \<mapsto> [2, 32, 32, 112], 4 \<mapsto> [2, 16, 16, 320]]"

section \<open>Grayscale: shapes of the output\<close>

lemma length_gray_entries: "length (gray_entries luma xs) = length xs div 3"
  by (induction luma xs rule: gray_entries.induct) simp_all

lemma length_tile3: "length (tile3 xs) = 3 * length xs"
  by (induction xs) simp_all

lemma nth_tile3: "k < length xs \<Longrightarrow> c < 3 \<Longrightarrow> tile3 xs ! (3 * k + c) = xs ! k"
proof (induction xs arbitrary: k)
  case Nil
  then show ?case by simp
next
  case (Cons v vs)
  show ?case
  proof (cases k)
    case 0
    with Cons.prems show ?thesis
      by (cases c) (auto simp: less_Suc_eq numeral_3_eq_3 nth_Cons')
  next
    case (Suc m)
    then have idx: "3 * k + c = Suc (Suc (Suc (3 * m + c)))" by simp
    have "m < length vs" using Cons.prems Suc by simp
    then have "tile3 vs ! (3 * m + c) = vs ! m" using Cons.IH Cons.prems by simp
    then show ?thesis unfolding idx by (simp add: Suc)
  qed
qed

lemma rgb_to_grayscale_shape:
  assumes "dims img = [H, W, 3]" and "well_shaped img"
  shows "\<exists>g. rgb_to_grayscale luma img = Inr g \<and> dims g = [H, W, 1] \<and> length (flat g) = H * W"
  using assms by (simp add: rgb_to_grayscale_def well_shaped_def length_gray_entries)

lemma grayscale_to_rgb_shape:
  assumes "dims g = [H, W, 1]" and "length (flat g) = H * W"
  shows "\<exists>out. grayscale_to_rgb g = Inr out \<and> dims out = [H, W, 3] \<and> well_shaped out
           \<and> (\<forall>i<H. \<forall>j<W. entry3 out i j 0 = entry3 out i j 1 \<and> entry3 out i j 1 = entry3 out i j 2)"
proof -
  let ?out = "\<lparr>dims = [H, W, 3], flat = tile3 (flat g)\<rparr>"
  have eq: "grayscale_to_rgb g = Inr ?out"
    using assms by (simp add: grayscale_to_rgb_def)
  have ws: "well_shaped ?out"
    using assms by (simp add: well_shaped_def length_tile3)
  have ch: "entry3 ?out i j c = flat g ! (i * W + j)" if "i < H" "j < W" "c < 3" for i j c
  proof -
    have "i * W + j < H * W"
    proof -
      have "i * W + j < i * W + W" using that by simp
      also have "\<dots> = Suc i * W" by simp
      also have "\<dots> \<le> H * W" using that by (intro mult_le_mono1) simp
      finally show ?thesis .
    qed
    then have "tile3 (flat g) ! (3 * (i * W + j) + c) = flat g ! (i * W + j)"
      using that assms by (intro nth_tile3) simp_all
    then show ?thesis by (simp add: entry3_def mult.commute)
  qed
  show ?thesis using eq ws ch by auto
qed

text \<open>
  C2. For every image of shape \<open>(H, W, 3)\<close>, \<open>augment_image\<close> of a layer with
  \<open>output_channels = 1\<close> returns a tensor of shape \<open>(H, W, 1)\<close>, and of a layer with
  \<open>output_channels = 3\<close> a tensor of shape \<open>(H, W, 3)\<close> whose three channels hold the same
  value at every pixel.
\<close>

theorem augment_image_shapes:
  assumes "dims img = [H, W, 3]" and "well_shaped img"
  shows "(output_channels self = PyInt 1 \<longrightarrow>
            (\<exists>out. augment_image luma self img = Inr out \<and> dims out = [H, W, 1] \<and> well_shaped out))
       \<and> (output_channels self = PyInt 3 \<longrightarrow>
            (\<exists>out. augment_image luma self img = Inr out \<and> dims out = [H, W, 3] \<and> well_shaped out
               \<and> (\<forall>i<H. \<forall>j<W. entry3 out i j 0 = entry3 out i j 1
                                \<and> entry3 out i j 1 = entry3 out i j 2)))"
proof -
  obtain g where g: "rgb_to_grayscale luma img = Inr g" "dims g = [H, W, 1]"
      "length (flat g) = H * W"
    using rgb_to_grayscale_shape [OF assms] by blast
  have one: "augment_image luma self img = Inr g" if "output_channels self = PyInt 1"
    using that g by (simp add: augment_image_def)
  have three: "augment_image luma self img = grayscale_to_rgb g" if "output_channels self = PyInt 3"
    using that g by (simp add: augment_image_def)
  have wg: "well_shaped g" using g by (simp add: well_shaped_def)
  show ?thesis
    using one three wg g(2) grayscale_to_rgb_shape [OF g(2) g(3)] by auto
qed

theorem augment_image_shapes_witness:
  "dims example_image = [1, 2, 3] \<and> well_shaped example_image
   \<and> augment_image int_luma (example_grayscale 1) example_image
       = Inr \<lparr>dims = [1, 2, 1], flat = [18, 124]\<rparr>
   \<and> (\<exists>out. augment_image int_luma (example_grayscale 3) example_image = Inr out
         \<and> dims out = [1, 2, 3] \<and> well_shaped out
         \<and> entry3 out 0 1 0 = entry3 out 0 1 1 \<and> entry3 out 0 1 1 = entry3 out 0 1 2)"
proof -
  have h1: "dims example_image = [1, 2, 3]" by (simp add: example_image_def)
  have h2: "well_shaped example_image" by (simp add: example_image_def well_shaped_def)
  have c1: "output_channels (example_grayscale 1) = PyInt 1"
    and c3: "output_channels (example_grayscale 3) = PyInt 3"
    by (simp_all add: example_grayscale_def)
  from augment_image_shapes [OF h1 h2, of "example_grayscale 1" int_luma] c1
  obtain out1 where o1: "augment_image int_luma (example_grayscale 1) example_image = Inr out1"
    "dims out1 = [1, 2, 1]"
    by blast
  have v: "augment_image int_luma (example_grayscale 1) example_image
             = Inr \<lparr>dims = [1, 2, 1], flat = [18, 124]\<rparr>"
    by (simp add: augment_image_def rgb_to_grayscale_def example_image_def
        example_grayscale_def int_luma_def)
  from augment_image_shapes [OF h1 h2, of "example_grayscale 3" int_luma] c3
  obtain out where "augment_image int_luma (example_grayscale 3) example_image = Inr out"
    "dims out = [1, 2, 3]" "well_shaped out"
    "\<forall>i<1. \<forall>j<2. entry3 out i j 0 = entry3 out i j 1 \<and> entry3 out i j 1 = entry3 out i j 2"
    by blast
  then show ?thesis using h1 h2 v by auto
qed

section \<open>Grayscale: the other hooks, configuration, purity\<close>

text \<open>
  C3. \<open>augment_bounding_boxes\<close>, \<open>augment_label\<close> and \<open>augment_segmentation_mask\<close> return
  their input unchanged, for every input.
\<close>

theorem grayscale_hooks_identity:
  "augment_bounding_boxes self bounding_boxes = bounding_boxes
   \<and> augment_label self label transformation = label
   \<and> augment_segmentation_mask self segmentation_mask transformation' = segmentation_mask"
  by (simp add: augment_bounding_boxes_def augment_label_def augment_segmentation_mask_def)

lemma augment_image_reads_output_channels:
  "output_channels self' = output_channels self
   \<Longrightarrow> augment_image luma self' img = augment_image luma self img"
  by (simp add: augment_image_def split: sum.splits)

text \<open>
  C4. \<open>get_config\<close> of a Grayscale layer is a flat mapping that holds \<open>output_channels\<close>,
  and the layer constructed from that mapping has the same \<open>output_channels\<close> and the
  same \<open>augment_image\<close> on every image.
\<close>

theorem get_config_round_trip:
  "Grayscale_get_config self ''output_channels'' = Some (output_channels self)
   \<and> (\<exists>self'. Grayscale_from_config (Grayscale_get_config self) = Inr self'
         \<and> output_channels self' = output_channels self
         \<and> (\<forall>(luma :: 'a \<Rightarrow> 'a \<Rightarrow> 'a \<Rightarrow> 'a) img.
               augment_image luma self' img = augment_image luma self img))"
proof -
  let ?self' = "\<lparr>output_channels = output_channels self, auto_vectorize = False,
      base_config = Grayscale_get_config self |` (- {''output_channels''})\<rparr>"
  have key: "Grayscale_get_config self ''output_channels'' = Some (output_channels self)"
    by (simp add: Grayscale_get_config_def)
  have made: "Grayscale_from_config (Grayscale_get_config self) = Inr ?self'"
    by (simp add: Grayscale_from_config_def Grayscale_init_def key)
  have "augment_image luma ?self' img = augment_image luma self img"
    for luma :: "'a \<Rightarrow> 'a \<Rightarrow> 'a \<Rightarrow> 'a" and img
    by (rule augment_image_reads_output_channels) simp
  with key made show ?thesis by simp
qed

lemma gray_step_state: "snd (gray_step luma self act) = self"
  by (cases act) (simp_all add: gray_step_def)

lemma gray_run_pure:
  "gray_run luma self acts = (map (\<lambda>act. fst (gray_step luma self act)) acts, self)"
proof (induction acts)
  case Nil
  show ?case by simp
next
  case (Cons act acts)
  obtain r where r: "gray_step luma self act = (r, self)"
    using gray_step_state [of luma self act] by (cases "gray_step luma self act") simp
  show ?case by (simp add: r Cons.IH)
qed


section \<open>Grayscale: an unsupported \<open>output_channels\<close>\<close>



text \<open>
  C1. Constructing a Grayscale layer with \<open>output_channels = 5\<close> returns a layer: the
  constructor does not raise. The check that would raise, \<open>_check_input_params\<close>, does
  so when it is called with 5, and the constructor does not call it.
\<close>

theorem Grayscale_init_accepts_5:
  "Grayscale_init (PyInt 5) Map.empty
     = Inr \<lparr>output_channels = PyInt 5, auto_vectorize = False, base_config = Map.empty\<rparr>
   \<and> fst (check_input_params
            \<lparr>output_channels = PyInt 1, auto_vectorize = False, base_config = Map.empty\<rparr> (PyInt 5))
       = Inl (ValueError
           ''Received invalid argument output_channels. output_channels must be in 1 or 3. Got '')"
  by (simp add: Grayscale_init_def check_input_params_def)

section \<open>SpatialPyramidPooling: the configuration attributes\<close>

lemma build_channels_config:
  "config_fields (snd (build_channels K self h w c)) = config_fields self"
  by (auto simp: build_channels_def config_fields_def split: sum.splits prod.splits)

lemma build_config: "config_fields (snd (build K self input_shape)) = config_fields self"
  by (cases input_shape) (auto simp: build_def build_channels_config split: option.splits)

lemma project_config: "config_fields (snd (project K self result training)) = config_fields self"
  by (auto simp: project_def config_fields_def split: sum.splits prod.splits option.splits)

lemma call_config: "config_fields (snd (call K self inputs training)) = config_fields self"
proof (cases inputs)
  case (Dict d)
  have upd: "config_fields (self\<lparr>aspp_parallel_channels := v\<rparr>) = config_fields self" for v
    by (simp add: config_fields_def)
  have pr: "config_fields self' = config_fields self"
    if "project K (self\<lparr>aspp_parallel_channels := v\<rparr>) result training = (r, self')"
    for v result r self'
    using project_config [of K "self\<lparr>aspp_parallel_channels := v\<rparr>" result training] that
    by (simp add: upd)
  show ?thesis
    using Dict by (auto simp: call_def upd split: option.splits sum.splits prod.splits dest: pr)
qed (simp_all add: call_def)

lemma spp_step_config: "config_fields (spp_step K self act) = config_fields self"
  by (cases act) (simp_all add: spp_step_def build_config call_config)

lemma spp_run_config: "config_fields (spp_run K self acts) = config_fields self"
  by (induction acts arbitrary: self) (simp_all add: spp_step_config)

text \<open>
  C7. After every sequence of hook invocations on a Grayscale layer its
  \<open>output_channels\<close> is the one set at construction, and after every sequence of \<open>build\<close>
  and \<open>call\<close> invocations on a SpatialPyramidPooling layer, whether they return or
  raise, its \<open>level\<close>, \<open>dilation_rates\<close>, \<open>num_channels\<close>, \<open>activation\<close> and \<open>dropout\<close> are
  the ones set at construction.
\<close>

theorem configuration_immutable:
  "output_channels (snd (gray_run luma g acts)) = output_channels g
   \<and> level (spp_run K self ops) = level self
   \<and> dilation_rates (spp_run K self ops) = dilation_rates self
   \<and> num_channels (spp_run K self ops) = num_channels self
   \<and> activation (spp_run K self ops) = activation self
   \<and> dropout (spp_run K self ops) = dropout self"
  using spp_run_config [of K self ops] gray_run_pure [of luma g acts]
  by (simp add: config_fields_def)

section \<open>SpatialPyramidPooling: the ValueError of the guards\<close>







lemma shape_keras_simps:
  "Sequential shape_keras layers = Inr (layers, 0)"
  "run_layer shape_keras c x training =
     (if length x = 4 then Inr (butlast x @ [block_filters (fst c)]) else Inl ''expected ndim=4'',
      (fst c, Suc (snd c)))"
  "tf_cast shape_keras x d = Inr x"
  "tf_concat shape_keras (x # rest) = Inr (butlast x @ [sum_list (map last (x # rest))])"
  by (simp_all add: shape_keras_def)

lemma example_built_simps:
  "build shape_keras example_layer example_shapes = (Inr (), example_built)"
  "aspp_parallel_channels example_built =
     Some [(conv_block example_layer, 0),
           (dilated_block example_layer 6, 0),
           (dilated_block example_layer 12, 0),
           (dilated_block example_layer 18, 0),
           (pool_block example_layer (Some 16) (Some 16) (Some 320), 0)]"
  "projection example_built = Some (projection_block example_layer, 0)"
  "level example_built = 4"
  by (simp_all add: example_built_def build_def build_channels_def example_shapes_def
      example_layer_def SpatialPyramidPooling_init_def shape_keras_simps)

lemma example_call:
  "fst (call shape_keras example_built example_inputs None) = Inr [4 \<mapsto> [2, 16, 16, 256]]"
  by (simp add: call_def project_def example_built_simps example_inputs_def shape_keras_simps
      conv_block_def dilated_block_def pool_block_def projection_block_def
      example_layer_def SpatialPyramidPooling_init_def)



section \<open>SpatialPyramidPooling: what \<open>call\<close> returns\<close>

lemma project_Inr:
  "project K self result training = (Inr out, self') \<Longrightarrow>
     \<exists>c p. tf_concat K result = Inr c \<and> projection self = Some p
           \<and> fst (run_layer K p c training) = Inr out"
  by (auto simp: project_def split: sum.splits option.splits prod.splits)

lemma run_channels_all:
  "run_channels K x training channels = (Inr ys, channels')
   \<Longrightarrow> list_all2 (channel_gives K x training) channels ys"
proof (induction channels arbitrary: ys channels')
  case Nil
  then show ?case by simp
next
  case (Cons channel channels)
  then show ?case
    by (auto simp: channel_gives_def split: sum.splits prod.splits)
qed



lemma call_Inr:
  assumes "call K self inputs training = (Inr out, self')"
  shows "\<exists>d x channels p ys c r.
           inputs = Dict d \<and> d (level self) = Some x
           \<and> aspp_parallel_channels self = Some channels \<and> projection self = Some p
           \<and> list_all2 (channel_gives K x training) channels ys
           \<and> tf_concat K ys = Inr c \<and> fst (run_layer K p c training) = Inr r
           \<and> out = [level self \<mapsto> r]"
proof (cases inputs)
  case (Dict d)
  with assms obtain x where x: "d (level self) = Some x"
    by (auto simp: call_def split: option.splits)
  with assms Dict obtain channels where ch: "aspp_parallel_channels self = Some channels"
    by (auto simp: call_def split: option.splits)
  with assms Dict x obtain ys channels' where
    run: "run_channels K x training channels = (Inr ys, channels')"
    by (auto simp: call_def split: sum.splits prod.splits)
  with assms Dict x ch obtain r where
    pr: "project K (self\<lparr>aspp_parallel_channels := Some channels'\<rparr>) ys training = (Inr r, self')"
    and out: "out = [level self \<mapsto> r]"
    by (auto simp: call_def split: sum.splits prod.splits)
  from project_Inr [OF pr] obtain c p where
    "tf_concat K ys = Inr c" "projection self = Some p" "fst (run_layer K p c training) = Inr r"
    by auto
  with Dict x ch run_channels_all [OF run] out show ?thesis by blast
next
  case (Single v)
  with assms show ?thesis by (simp add: call_def)
next
  case (Sequence vs)
  with assms show ?thesis by (simp add: call_def)
qed




text \<open>
  C8. When \<open>call\<close> is given a \<open>dict\<close> that contains the configured level and returns, the
  returned \<open>dict\<close> has exactly one key, the configured level, whatever other levels the
  input holds.
\<close>

theorem call_returns_level_only:
  assumes "dict_with_key (level self) inputs"
    and "fst (call K self inputs training) = Inr out"
  shows "dom out = {level self}"
proof -
  obtain self' where "call K self inputs training = (Inr out, self')"
    using assms(2) by (cases "call K self inputs training") simp
  from call_Inr [OF this] obtain r where "out = [level self \<mapsto> r]" by blast
  then show ?thesis by simp
qed

theorem call_returns_level_only_witness:
  "dict_with_key (level example_built) example_inputs
   \<and> dict_with_key 3 example_inputs
   \<and> fst (call shape_keras example_built example_inputs None) = Inr [4 \<mapsto> [2, 16, 16, 256]]
   \<and> dom [4 \<mapsto> [2, 16, 16, 256 :: nat]] = {level example_built}"
proof -
  have h1: "dict_with_key (level example_built) example_inputs"
    by (simp add: example_built_simps example_inputs_def)
  have h2: "fst (call shape_keras example_built example_inputs None) = Inr [4 \<mapsto> [2, 16, 16, 256]]"
    by (rule example_call)
  have h3: "dict_with_key 3 example_inputs" by (simp add: example_inputs_def)
  from call_returns_level_only [OF h1 h2] h1 h2 h3 show ?thesis by simp
qed




end
